theory Spec2Isabelle
  imports Main
begin

section \<open>Strings\<close>

text \<open>
  Python strings are modelled as \<^typ>\<open>string\<close>, one \<^typ>\<open>char\<close> per code point, for the
  code points below 256 (Latin-1). \<open>islower_char\<close> and \<open>isupper_char\<close> are the
  character classes of \<^verbatim>\<open>str.islower\<close> and \<^verbatim>\<open>str.isupper\<close> on that range: no code
  point below 256 is title case.
\<close>

definition islower_char :: "char \<Rightarrow> bool" where
  "islower_char c =
     (let n = (of_char c :: nat)
      in (97 \<le> n \<and> n \<le> 122) \<or> n = 170 \<or> n = 181 \<or> n = 186
         \<or> (223 \<le> n \<and> n \<le> 246) \<or> (248 \<le> n \<and> n \<le> 255))"

definition isupper_char :: "char \<Rightarrow> bool" where
  "isupper_char c =
     (let n = (of_char c :: nat)
      in (65 \<le> n \<and> n \<le> 90) \<or> (192 \<le> n \<and> n \<le> 214) \<or> (216 \<le> n \<and> n \<le> 222))"

text \<open>
  \<^verbatim>\<open>s.islower()\<close>: no cased character of \<open>s\<close> is upper case, and \<open>s\<close> has at least one
  lower-case character. The empty string is not lower case.
\<close>

definition islower :: "string \<Rightarrow> bool" where
  "islower s = (list_all (\<lambda>c. \<not> isupper_char c) s \<and> list_ex islower_char s)"

section \<open>The abbreviation splitter\<close>

text \<open>
  One round of the loop of \<^verbatim>\<open>split_abbreviations\<close>, on the pair of the list
  \<^verbatim>\<open>abbreviations\<close> and the string \<^verbatim>\<open>current_token\<close>.
\<close>

fun split_step :: "string list \<times> string \<Rightarrow> char \<Rightarrow> string list \<times> string" where
  "split_step (abbreviations, current_token) ch =
     (if current_token = [] then (abbreviations, current_token @ [ch])
      else if islower_char ch then (abbreviations, current_token @ [ch])
      else
        (if \<not> islower current_token \<and> current_token \<notin> set abbreviations
         then abbreviations @ [current_token]
         else abbreviations,
         [ch]))"

text \<open>\<^verbatim>\<open>s.split(';')[0]\<close>: the part of \<open>s\<close> before its first semicolon.\<close>

definition before_semicolon :: "string \<Rightarrow> string" where
  "before_semicolon s = takeWhile (\<lambda>c. c \<noteq> CHR '';'') s"

definition split_abbreviations :: "string \<Rightarrow> string list" where
  "split_abbreviations s =
     (case foldl split_step ([], []) (before_semicolon s) of
        (abbreviations, current_token) \<Rightarrow>
          if current_token \<noteq> [] \<and> current_token \<notin> set abbreviations
          then abbreviations @ [current_token]
          else abbreviations)"

section \<open>Errors and values\<close>

text \<open>
  The exceptions the module raises or lets escape, with their messages. The module itself
  raises only \<^verbatim>\<open>ValueError\<close>; the other three come from the indexing, item
  assignment and conversion of the built-in sequences.
\<close>

datatype error =
    ValueError string
  | IndexError string
  | TypeError string
  | OverflowError string

abbreviation InvalidSizeError :: error where
  "InvalidSizeError \<equiv> ValueError ''wrong palette size''"

abbreviation RawPaletteError :: error where
  "RawPaletteError \<equiv> ValueError ''palette contains raw palette data''"

abbreviation PaletteFullError :: error where
  "PaletteFullError \<equiv> ValueError ''cannot allocate more than 256 colors''"

text \<open>
  The value bound to \<^verbatim>\<open>channels\<close>: a tuple of labels, as the splitter returns, or a
  list of integers, as the factories pass in that position.
\<close>

datatype sequence = Labels "string list" | Numbers "int list"

fun len :: "sequence \<Rightarrow> nat" where
  "len (Labels ls) = length ls"
| "len (Numbers ns) = length ns"

text \<open>
  The value bound to \<^verbatim>\<open>palette\<close>: immutable \<^verbatim>\<open>bytes\<close>, a \<^verbatim>\<open>bytearray\<close>, or a
  list of integers.
\<close>

datatype buffer = Bytes "int list" | ByteArray "int list" | IntList "int list"

fun items :: "buffer \<Rightarrow> int list" where
  "items (Bytes xs) = xs"
| "items (ByteArray xs) = xs"
| "items (IntList xs) = xs"

text \<open>\<^verbatim>\<open>b[i]\<close> for \<open>i \<ge> 0\<close>; \<open>None\<close> is the \<^verbatim>\<open>IndexError\<close>.\<close>

definition getitem :: "buffer \<Rightarrow> nat \<Rightarrow> int option" where
  "getitem b i = (if i < length (items b) then Some (items b ! i) else None)"

text \<open>
  \<^verbatim>\<open>b[i] = v\<close> for \<open>i \<ge> 0\<close>. \<^verbatim>\<open>bytes\<close> has no item assignment, a \<^verbatim>\<open>bytearray\<close>
  takes only values in \<open>range(0, 256)\<close>, a list takes any integer. A \<^verbatim>\<open>bytearray\<close>
  converts the value before it looks at the index, so a bad value is reported first.
\<close>

fun setitem :: "buffer \<Rightarrow> nat \<Rightarrow> int \<Rightarrow> error + buffer" where
  "setitem (Bytes xs) i v = Inl (TypeError ''bytes object does not support item assignment'')"
| "setitem (ByteArray xs) i v =
     (if v < 0 \<or> 255 < v then Inl (ValueError ''byte must be in range(0, 256)'')
      else if length xs \<le> i then Inl (IndexError ''bytearray index out of range'')
      else Inr (ByteArray (xs[i := v])))"
| "setitem (IntList xs) i v =
     (if length xs \<le> i then Inl (IndexError ''list assignment index out of range'')
      else Inr (IntList (xs[i := v])))"

text \<open>The \<^verbatim>\<open>%d\<close> conversion of an integer.\<close>

fun digits :: "nat \<Rightarrow> string" where
  "digits n =
     (if n < 10 then [char_of (48 + n)]
      else digits (n div 10) @ [char_of (48 + n mod 10)])"

declare digits.simps [simp del]

definition format_d :: "int \<Rightarrow> string" where
  "format_d v = (if v < 0 then CHR ''-'' # digits (nat (- v)) else digits (nat v))"

section \<open>The palette\<close>

record ImagePalette =
  mode :: string
  channels :: sequence
  rawmode :: "string option"
  palette :: buffer
  colors :: "(int list \<times> int) list"
  dirty :: "int option"

text \<open>
  \<^verbatim>\<open>colors\<close> is a dictionary from colour tuples to indices, kept as an association
  list in insertion order; \<^verbatim>\<open>len(self.colors)\<close> is its length.
\<close>

text \<open>\<^verbatim>\<open>bytearray(range(256)) * n\<close>.\<close>

definition ramp :: "nat \<Rightarrow> buffer" where
  "ramp n = ByteArray (concat (replicate n (map int [0..<256])))"

text \<open>
  \<^verbatim>\<open>channels or split_abbreviations(mode)\<close> and \<^verbatim>\<open>palette or bytearray(...)\<close>:
  \<^verbatim>\<open>None\<close> and an empty sequence are both false.
\<close>

definition channels_or :: "sequence option \<Rightarrow> sequence \<Rightarrow> sequence" where
  "channels_or given dflt =
     (case given of None \<Rightarrow> dflt | Some c \<Rightarrow> if len c = 0 then dflt else c)"

definition palette_or :: "buffer option \<Rightarrow> buffer \<Rightarrow> buffer" where
  "palette_or given dflt =
     (case given of None \<Rightarrow> dflt | Some b \<Rightarrow> if items b = [] then dflt else b)"

definition ImagePalette_init ::
  "string \<Rightarrow> sequence option \<Rightarrow> buffer option \<Rightarrow> int \<Rightarrow> error + ImagePalette" where
  "ImagePalette_init mode0 channels0 palette0 size0 =
     (let chs = channels_or channels0 (Labels (split_abbreviations mode0));
          pal = palette_or palette0 (ramp (len chs))
      in if (size0 = 0 \<and> int (len chs) * 256 \<noteq> int (length (items pal)))
            \<or> (size0 \<noteq> 0 \<and> size0 \<noteq> int (length (items pal)))
         then Inl (ValueError ''wrong palette size'')
         else Inr \<lparr>mode = mode0, channels = chs, rawmode = None, palette = pal,
                   colors = [], dirty = None\<rparr>)"

text \<open>\<^verbatim>\<open>if self.rawmode\<close>: \<^verbatim>\<open>None\<close> and the empty string are both false.\<close>

definition rawmode_set :: "ImagePalette \<Rightarrow> bool" where
  "rawmode_set self = (case rawmode self of None \<Rightarrow> False | Some r \<Rightarrow> r \<noteq> [])"

definition copy :: "ImagePalette \<Rightarrow> error + ImagePalette" where
  "copy self =
     (case ImagePalette_init ''RGB'' None None 0 of
        Inl e \<Rightarrow> Inl e
      | Inr new \<Rightarrow>
          Inr (new\<lparr>mode := mode self, channels := channels self, rawmode := rawmode self,
                    palette := palette self, colors := colors self, dirty := dirty self\<rparr>))"

text \<open>
  \<^verbatim>\<open>array.array("B", self.palette)\<close> converts the entries of a list in order and raises
  \<^verbatim>\<open>OverflowError\<close> at the first one outside \<open>range(0, 256)\<close>.
\<close>

definition tobytes :: "ImagePalette \<Rightarrow> error + buffer" where
  "tobytes self =
     (if rawmode_set self then Inl (ValueError ''palette contains raw palette data'')
      else case palette self of
          Bytes xs \<Rightarrow> Inr (Bytes xs)
        | ByteArray xs \<Rightarrow> Inr (Bytes xs)
        | IntList xs \<Rightarrow>
            (case find (\<lambda>v. v < 0 \<or> 255 < v) xs of
               None \<Rightarrow> Inr (Bytes xs)
             | Some v \<Rightarrow>
                 if v < 0
                 then Inl (OverflowError ''unsigned byte integer is less than minimum'')
                 else Inl (OverflowError ''unsigned byte integer is greater than maximum'')))"

definition getdata :: "ImagePalette \<Rightarrow> error + string \<times> buffer" where
  "getdata self =
     (if rawmode_set self then Inr (the (rawmode self), palette self)
      else case tobytes self of
          Inl e \<Rightarrow> Inl e
        | Inr b \<Rightarrow> Inr (mode self @ '';L'', b))"

text \<open>
  The argument of \<^verbatim>\<open>getcolor\<close>: a tuple of integers, or any other object, kept by its
  \<^verbatim>\<open>repr\<close>.
\<close>

datatype color = Tuple "int list" | Other string

text \<open>
  \<^verbatim>\<open>self.palette[pos] = color[c]\<close>: the read of the tuple comes first, then the item
  assignment.
\<close>

definition store :: "ImagePalette \<Rightarrow> int list \<Rightarrow> nat \<Rightarrow> nat \<Rightarrow> error + ImagePalette" where
  "store self cs c pos =
     (if length cs \<le> c then Inl (IndexError ''tuple index out of range'')
      else case setitem (palette self) pos (cs ! c) of
          Inl e \<Rightarrow> Inl e
        | Inr b \<Rightarrow> Inr (self\<lparr>palette := b\<rparr>))"

text \<open>\<^verbatim>\<open>if isinstance(self.palette, bytes): self.palette = bytearray(self.palette)\<close>.\<close>

definition thaw :: "ImagePalette \<Rightarrow> ImagePalette" where
  "thaw self = (case palette self of Bytes xs \<Rightarrow> self\<lparr>palette := ByteArray xs\<rparr> | _ \<Rightarrow> self)"

text \<open>
  \<^verbatim>\<open>getcolor\<close> mutates the palette, and an exception leaves the mutations made before
  it in place: the model returns the outcome together with the palette after the call.
\<close>

definition getcolor :: "ImagePalette \<Rightarrow> color \<Rightarrow> (error + int) \<times> ImagePalette" where
  "getcolor self color =
     (if rawmode_set self then (Inl (ValueError ''palette contains raw palette data''), self)
      else case color of
          Other r \<Rightarrow> (Inl (ValueError (''unknown color specifier: '' @ r)), self)
        | Tuple cs \<Rightarrow>
            (case map_of (colors self) cs of
               Some i \<Rightarrow> (Inr i, self)
             | None \<Rightarrow>
                 let s0 = thaw self; index = length (colors s0)
                 in if 256 \<le> index
                    then (Inl (ValueError ''cannot allocate more than 256 colors''), s0)
                    else
                      let s1 = s0\<lparr>colors := colors s0 @ [(cs, int index)]\<rparr>
                      in case store s1 cs 0 index of
                           Inl e \<Rightarrow> (Inl e, s1)
                         | Inr s2 \<Rightarrow>
                             (case store s2 cs 1 (index + 256) of
                                Inl e \<Rightarrow> (Inl e, s2)
                              | Inr s3 \<Rightarrow>
                                  (case store s3 cs 2 (index + 512) of
                                     Inl e \<Rightarrow> (Inl e, s3)
                                   | Inr s4 \<Rightarrow> (Inr (int index), s4\<lparr>dirty := Some 1\<rparr>)))))"

text \<open>
  \<^verbatim>\<open>save\<close> writes to a text file, given by name or as an open file object. A file is
  modelled by the text written to it so far; a file opened by name starts empty. The
  result is the text of the file when it is closed.
\<close>

datatype target = Path string | File string

fun opened :: "target \<Rightarrow> string" where
  "opened (Path name) = []"
| "opened (File text) = text"

text \<open>The \<^verbatim>\<open>try\<close> block of the inner loop, for one position \<open>j\<close> of the buffer.\<close>

definition save_entry :: "ImagePalette \<Rightarrow> nat \<Rightarrow> string" where
  "save_entry self j =
     (case getitem (palette self) j of
        Some v \<Rightarrow> '' '' @ format_d v
      | None \<Rightarrow> '' 0'')"

text \<open>The body of the outer loop, for one index \<open>i\<close>.\<close>

definition save_row :: "ImagePalette \<Rightarrow> nat \<Rightarrow> string" where
  "save_row self i =
     format_d (int i)
     @ concat (map (save_entry self)
         [i * len (channels self) ..< (i + 1) * len (channels self)])
     @ ''\<newline>''"

definition save :: "ImagePalette \<Rightarrow> target \<Rightarrow> error + string" where
  "save self fp =
     (if rawmode_set self then Inl (ValueError ''palette contains raw palette data'')
      else Inr (opened fp @ ''# Palette\<newline>'' @ ''# Mode: '' @ mode self @ ''\<newline>''
                @ concat (map (save_row self) [0..<256])))"

section \<open>Factories\<close>

definition raw :: "string \<Rightarrow> buffer \<Rightarrow> error + ImagePalette" where
  "raw rawmode0 data =
     (case ImagePalette_init ''RGB'' None None 0 of
        Inl e \<Rightarrow> Inl e
      | Inr p \<Rightarrow>
          Inr (p\<lparr>rawmode := Some rawmode0,
                  channels := Labels (split_abbreviations rawmode0),
                  palette := data, dirty := Some 1\<rparr>))"

text \<open>
  \<^verbatim>\<open>negative\<close> and \<^verbatim>\<open>wedge\<close> pass their list as the second positional argument of
  the constructor, which is \<^verbatim>\<open>channels\<close>.
\<close>

definition negative :: "string \<Rightarrow> error + ImagePalette" where
  "negative mode0 =
     (let palette0 = rev (map int [0..<256])
      in ImagePalette_init mode0
           (Some (Numbers (concat (replicate (length (split_abbreviations mode0)) palette0))))
           None 0)"

definition wedge :: "string \<Rightarrow> error + ImagePalette" where
  "wedge mode0 =
     ImagePalette_init mode0
       (Some (Numbers (concat (replicate (length (split_abbreviations mode0))
          (map int [0..<256])))))
       None 0"

section \<open>Sequences of operations\<close>

text \<open>
  The palettes a program can hold: one returned by the constructor (the factories
  \<^verbatim>\<open>negative\<close> and \<^verbatim>\<open>wedge\<close> return such a palette) or by \<^verbatim>\<open>raw\<close>, a copy of a
  palette it can hold, and a palette it can hold after a call of \<^verbatim>\<open>getcolor\<close>, whether
  the call returned or raised. \<^verbatim>\<open>tobytes\<close>, \<^verbatim>\<open>getdata\<close> and \<^verbatim>\<open>save\<close> assign to no
  attribute.
\<close>

inductive reachable :: "ImagePalette \<Rightarrow> bool" where
  constructed: "ImagePalette_init m chs pal sz = Inr p \<Longrightarrow> reachable p"
| raw_made: "raw rm data = Inr p \<Longrightarrow> reachable p"
| copied: "reachable p \<Longrightarrow> copy p = Inr q \<Longrightarrow> reachable q"
| getcolor_called: "reachable p \<Longrightarrow> reachable (snd (getcolor p c))"

section \<open>The splitter on the documented modes\<close>

lemma islower_char_simps:
  "islower_char CHR ''s'' = True" "islower_char CHR ''b'' = True" "islower_char CHR ''r'' = True"
  "islower_char CHR ''R'' = False" "islower_char CHR ''G'' = False" "islower_char CHR ''B'' = False"
  "islower_char CHR ''C'' = False" "islower_char CHR ''M'' = False" "islower_char CHR ''Y'' = False"
  "islower_char CHR ''K'' = False" "islower_char CHR ''X'' = False" "islower_char CHR ''Z'' = False"
  "islower_char CHR ''I'' = False"
  by (simp_all add: islower_char_def)

lemma isupper_char_simps:
  "isupper_char CHR ''s'' = False" "isupper_char CHR ''b'' = False" "isupper_char CHR ''r'' = False"
  "isupper_char CHR ''R'' = True" "isupper_char CHR ''G'' = True" "isupper_char CHR ''B'' = True"
  "isupper_char CHR ''C'' = True" "isupper_char CHR ''M'' = True" "isupper_char CHR ''Y'' = True"
  "isupper_char CHR ''K'' = True" "isupper_char CHR ''X'' = True" "isupper_char CHR ''Z'' = True"
  "isupper_char CHR ''I'' = True"
  by (simp_all add: isupper_char_def)

lemma split_RGB: "split_abbreviations ''RGB'' = [''R'', ''G'', ''B'']"
  by (simp add: split_abbreviations_def before_semicolon_def islower_def
      islower_char_simps isupper_char_simps)

text \<open>
  Claim C6. The splitter returns the documented tuple on each of the six modes of its
  docstring: RGB, CMYK, YCbCr, sRGB (the leading lower-case s is dropped), XYZZ (the
  second Z is a duplicate) and I;16B (only the part before the semicolon is split).
\<close>

theorem split_abbreviations_examples:
  "split_abbreviations ''RGB'' = [''R'', ''G'', ''B'']
   \<and> split_abbreviations ''CMYK'' = [''C'', ''M'', ''Y'', ''K'']
   \<and> split_abbreviations ''YCbCr'' = [''Y'', ''Cb'', ''Cr'']
   \<and> split_abbreviations ''sRGB'' = [''R'', ''G'', ''B'']
   \<and> split_abbreviations ''XYZZ'' = [''X'', ''Y'', ''Z'']
   \<and> split_abbreviations ''I;16B'' = [''I'']"
  by (simp add: split_abbreviations_def before_semicolon_def islower_def
      islower_char_simps isupper_char_simps)


section \<open>The default buffer\<close>

lemma nth_concat_replicate:
  "c < n \<Longrightarrow> i < length xs \<Longrightarrow> concat (replicate n xs) ! (c * length xs + i) = xs ! i"
proof (induction n arbitrary: c)
  case 0
  then show ?case by simp
next
  case (Suc n)
  show ?case
  proof (cases c)
    case 0
    with Suc.prems show ?thesis by (simp add: nth_append)
  next
    case (Suc c')
    with Suc.prems have "c' < n" by simp
    from Suc.IH [OF this Suc.prems(2)] Suc show ?thesis
      by (simp add: nth_append)
  qed
qed

lemma length_concat_replicate: "length (concat (replicate n xs)) = n * length xs"
  by (induction n) simp_all

lemma length_ramp: "length (items (ramp n)) = n * 256"
  by (simp add: ramp_def length_concat_replicate del: upt_rec_numeral)

lemma nth_ramp: "c < n \<Longrightarrow> i < 256 \<Longrightarrow> items (ramp n) ! (c * 256 + i) = int i"
  using nth_concat_replicate [of c n i "map int [0..<256]"]
  by (simp add: ramp_def del: upt_rec_numeral)

lemma getitem_ramp: "c < n \<Longrightarrow> i < 256 \<Longrightarrow> getitem (ramp n) (c * 256 + i) = Some (int i)"
proof -
  assume c: "c < n" and i: "i < 256"
  then have "c * 256 + i < n * 256"
  proof -
    from c have "Suc c \<le> n" by simp
    then have "Suc c * 256 \<le> n * 256" by (rule mult_le_mono1)
    with i show ?thesis by simp
  qed
  with c i show ?thesis by (simp add: getitem_def length_ramp nth_ramp)
qed

lemma items_ramp_Nil: "items (ramp 0) = []"
  by (simp add: ramp_def)

section \<open>Construction\<close>

lemma init_RGB:
  "ImagePalette_init ''RGB'' None None 0 =
     Inr \<lparr>mode = ''RGB'', channels = Labels [''R'', ''G'', ''B''], rawmode = None,
          palette = ramp 3, colors = [], dirty = None\<rparr>"
  by (simp add: ImagePalette_init_def channels_or_def palette_or_def split_RGB length_ramp
      numeral_3_eq_3)

section \<open>The factory negative\<close>

lemma length_reversed_ramps:
  "length (concat (replicate n (rev (map int [0..<256])))) = n * 256"
  by (simp add: length_concat_replicate del: upt_rec_numeral)

text \<open>
  Claim C1 says that the buffer of \<^verbatim>\<open>negative("RGB")\<close> holds \<open>255 - i\<close> at offset
  \<open>0 * 256 + i\<close>. The factory passes its reversed ramp as second positional argument,
  which the constructor binds to \<^verbatim>\<open>channels\<close>: the palette it returns has 768
  "channels" (the reversed ramps) and, no buffer being given, the default buffer, the
  identity ramp repeated 768 times. At offset 0 the buffer holds 0, not 255, and at offset
  255 it holds 255, not 0.
\<close>

theorem negative_RGB_buffer:
  "negative ''RGB'' =
     Inr \<lparr>mode = ''RGB'',
          channels = Numbers (concat (replicate 3 (rev (map int [0..<256])))),
          rawmode = None, palette = ramp 768, colors = [], dirty = None\<rparr>
   \<and> getitem (ramp 768) (0 * 256 + 0) = Some 0
   \<and> getitem (ramp 768) (0 * 256 + 255) = Some 255"
proof -
  have "negative ''RGB'' =
     Inr \<lparr>mode = ''RGB'',
          channels = Numbers (concat (replicate 3 (rev (map int [0..<256])))),
          rawmode = None, palette = ramp 768, colors = [], dirty = None\<rparr>"
    by (simp add: negative_def split_RGB ImagePalette_init_def channels_or_def palette_or_def
        length_reversed_ramps length_ramp Let_def numeral_3_eq_3 del: upt_rec_numeral)
  moreover have "getitem (ramp 768) (0 * 256 + 0) = Some 0"
    using getitem_ramp [of 0 768 0] by simp
  moreover have "getitem (ramp 768) (0 * 256 + 255) = Some 255"
    using getitem_ramp [of 0 768 255] by simp
  ultimately show ?thesis by simp
qed

lemma init_supplied:
  "items buf \<noteq> [] \<Longrightarrow>
   ImagePalette_init m chs (Some buf) sz =
     (if (sz = 0 \<and> int (len (channels_or chs (Labels (split_abbreviations m)))) * 256
            \<noteq> int (length (items buf)))
         \<or> (sz \<noteq> 0 \<and> sz \<noteq> int (length (items buf)))
      then Inl InvalidSizeError
      else Inr \<lparr>mode = m, channels = channels_or chs (Labels (split_abbreviations m)),
                rawmode = None, palette = buf, colors = [], dirty = None\<rparr>)"
  by (simp add: ImagePalette_init_def palette_or_def Let_def)

lemma init_absent:
  "ImagePalette_init m chs None 0 =
     Inr \<lparr>mode = m, channels = channels_or chs (Labels (split_abbreviations m)),
          rawmode = None,
          palette = ramp (len (channels_or chs (Labels (split_abbreviations m)))),
          colors = [], dirty = None\<rparr>"
  by (simp add: ImagePalette_init_def palette_or_def Let_def length_ramp)

lemma init_empty:
  "items buf = [] \<Longrightarrow> ImagePalette_init m chs (Some buf) sz = ImagePalette_init m chs None sz"
  by (simp add: ImagePalette_init_def palette_or_def)

lemma init_empty_channels:
  "len c = 0 \<Longrightarrow> ImagePalette_init m (Some c) pal sz = ImagePalette_init m None pal sz"
  by (simp add: ImagePalette_init_def channels_or_def)

text \<open>
  Claim C5, amended. When a non-empty buffer is supplied, construction fails with
  \<^verbatim>\<open>ValueError("wrong palette size")\<close> exactly when the declared size is 0 and the
  length of the buffer differs from 256 times the number of channels, or the declared
  size is not 0 and differs from the length of the buffer; otherwise it returns the palette
  that holds the supplied buffer. The number of channels is that of the supplied channels,
  or of the labels of the mode when none (or an empty sequence) is supplied.
\<close>

theorem init_supplied_buffer_size_check:
  assumes "items buf \<noteq> []"
  shows "(ImagePalette_init m chs (Some buf) sz = Inl InvalidSizeError
           \<longleftrightarrow> (sz = 0 \<and> length (items buf)
                      \<noteq> 256 * len (channels_or chs (Labels (split_abbreviations m))))
               \<or> (sz \<noteq> 0 \<and> sz \<noteq> int (length (items buf))))
         \<and> (ImagePalette_init m chs (Some buf) sz \<noteq> Inl InvalidSizeError
           \<longrightarrow> ImagePalette_init m chs (Some buf) sz
                 = Inr \<lparr>mode = m,
                        channels = channels_or chs (Labels (split_abbreviations m)),
                        rawmode = None, palette = buf, colors = [], dirty = None\<rparr>)"
  using assms by (auto simp add: init_supplied)

theorem init_supplied_buffer_size_check_witness:
  "ImagePalette_init ''RGB'' None (Some (IntList [1, 2, 3])) 0 = Inl InvalidSizeError
   \<and> ImagePalette_init ''RGB'' None (Some (IntList [1, 2, 3])) 3
       = Inr \<lparr>mode = ''RGB'', channels = Labels [''R'', ''G'', ''B''], rawmode = None,
              palette = IntList [1, 2, 3], colors = [], dirty = None\<rparr>"
proof -
  have ne: "items (IntList [1, 2, 3]) \<noteq> []" by simp
  have ch: "channels_or None (Labels (split_abbreviations ''RGB'')) = Labels [''R'', ''G'', ''B'']"
    by (simp add: channels_or_def split_RGB)
  from init_supplied_buffer_size_check [OF ne, of "''RGB''" None 0]
  have "ImagePalette_init ''RGB'' None (Some (IntList [1, 2, 3])) 0 = Inl InvalidSizeError"
    by (simp add: ch)
  moreover
  from init_supplied_buffer_size_check [OF ne, of "''RGB''" None 3]
  have "ImagePalette_init ''RGB'' None (Some (IntList [1, 2, 3])) 3
       = Inr \<lparr>mode = ''RGB'', channels = Labels [''R'', ''G'', ''B''], rawmode = None,
              palette = IntList [1, 2, 3], colors = [], dirty = None\<rparr>"
    by (auto simp add: ch)
  ultimately show ?thesis by simp
qed

text \<open>
  Claim C5 as stated fails on an empty supplied buffer: with declared size 0 the length 0
  differs from \<open>256 * 3\<close>, yet construction succeeds, on the default buffer.
\<close>

theorem init_empty_buffer_counterexample:
  "(0::int) = 0
   \<and> length (items (IntList [])) \<noteq> 256 * len (Labels [''R'', ''G'', ''B''])
   \<and> ImagePalette_init ''RGB'' (Some (Labels [''R'', ''G'', ''B''])) (Some (IntList [])) 0
       = Inr \<lparr>mode = ''RGB'', channels = Labels [''R'', ''G'', ''B''], rawmode = None,
              palette = ramp 3, colors = [], dirty = None\<rparr>"
  by (simp add: init_empty init_absent channels_or_def numeral_3_eq_3)

text \<open>
  Claim C10. With declared size 0, an empty supplied buffer (of any of the three kinds)
  gives the palette that no buffer gives: construction succeeds, and the buffer is the
  identity ramp once per channel, of length 256 times the number of channels. An empty
  supplied \<^verbatim>\<open>channels\<close> is replaced by the labels of the mode.
\<close>

theorem init_empty_buffer_default:
  assumes "items buf = []"
  shows "\<exists>p. ImagePalette_init m chs (Some buf) 0 = Inr p
     \<and> ImagePalette_init m chs None 0 = Inr p
     \<and> palette p = ramp (len (channels p))
     \<and> length (items (palette p)) = 256 * len (channels p)
     \<and> (\<forall>c i. c < len (channels p) \<and> i < 256
          \<longrightarrow> getitem (palette p) (c * 256 + i) = Some (int i))
     \<and> (case chs of
          None \<Rightarrow> channels p = Labels (split_abbreviations m)
        | Some cs \<Rightarrow> channels p = (if len cs = 0 then Labels (split_abbreviations m) else cs))"
  using assms
  by (auto simp add: init_empty init_absent length_ramp getitem_ramp channels_or_def
      split: option.splits)

theorem init_empty_buffer_default_witness:
  "\<exists>p. ImagePalette_init ''RGB'' (Some (Labels [])) (Some (ByteArray [])) 0 = Inr p
     \<and> palette p = ramp 3 \<and> channels p = Labels [''R'', ''G'', ''B'']
     \<and> getitem (palette p) (2 * 256 + 7) = Some 7"
proof -
  have e: "items (ByteArray []) = []" by simp
  from init_empty_buffer_default [OF e, of "''RGB''" "Some (Labels [])"]
  obtain p where p: "ImagePalette_init ''RGB'' (Some (Labels [])) (Some (ByteArray [])) 0 = Inr p"
    and pal: "palette p = ramp (len (channels p))"
    and ch: "channels p = Labels [''R'', ''G'', ''B'']"
    and ramp: "\<forall>c i. c < len (channels p) \<and> i < 256
          \<longrightarrow> getitem (palette p) (c * 256 + i) = Some (int i)"
    by (auto simp add: split_RGB)
  from pal ch have "palette p = ramp 3" by (simp add: numeral_3_eq_3)
  moreover from ramp [rule_format, of 2 7] ch have "getitem (palette p) (2 * 256 + 7) = Some 7"
    by simp
  ultimately show ?thesis using p ch by simp
qed


section \<open>Raw palettes\<close>

lemma raw_eq:
  "raw rm data =
     Inr \<lparr>mode = ''RGB'', channels = Labels (split_abbreviations rm), rawmode = Some rm,
          palette = data, colors = [], dirty = Some 1\<rparr>"
  by (simp add: raw_def init_RGB)

text \<open>
  Claim C2, amended. On the palette that \<^verbatim>\<open>raw\<close> returns for a non-empty raw mode,
  \<^verbatim>\<open>tobytes\<close> and \<^verbatim>\<open>save\<close> fail with
  \<^verbatim>\<open>ValueError("palette contains raw palette data")\<close>, and \<^verbatim>\<open>getdata\<close> returns the
  raw mode and the data as they were given.
\<close>

theorem raw_palette_operations:
  assumes "rm \<noteq> []"
  shows "\<exists>p. raw rm data = Inr p
     \<and> tobytes p = Inl RawPaletteError
     \<and> save p fp = Inl RawPaletteError
     \<and> getdata p = Inr (rm, data)"
  using assms
  by (simp add: raw_eq tobytes_def save_def getdata_def rawmode_set_def)

theorem raw_palette_operations_witness:
  "\<exists>p. raw ''RGB;L'' (Bytes [7, 8, 9]) = Inr p
     \<and> tobytes p = Inl RawPaletteError
     \<and> save p (Path ''palette.txt'') = Inl RawPaletteError
     \<and> getdata p = Inr (''RGB;L'', Bytes [7, 8, 9])"
proof -
  have "''RGB;L'' \<noteq> []" by simp
  from raw_palette_operations [OF this] show ?thesis .
qed

text \<open>
  Claim C2 as stated fails for \<^verbatim>\<open>getdata\<close>: on the palette of
  \<^verbatim>\<open>raw("RGB", bytes([7, 8, 9]))\<close> it returns the pair of the raw mode and the data, and
  raises nothing.
\<close>

theorem raw_getdata_counterexample:
  "raw ''RGB'' (Bytes [7, 8, 9]) =
     Inr \<lparr>mode = ''RGB'', channels = Labels [''R'', ''G'', ''B''], rawmode = Some ''RGB'',
          palette = Bytes [7, 8, 9], colors = [], dirty = Some 1\<rparr>
   \<and> getdata \<lparr>mode = ''RGB'', channels = Labels [''R'', ''G'', ''B''], rawmode = Some ''RGB'',
          palette = Bytes [7, 8, 9], colors = [], dirty = Some 1\<rparr>
       = Inr (''RGB'', Bytes [7, 8, 9])"
  by (simp add: raw_eq split_RGB getdata_def rawmode_set_def)

section \<open>Allocation of colours\<close>

lemma getcolor_known:
  "\<not> rawmode_set self \<Longrightarrow> map_of (colors self) cs = Some i \<Longrightarrow>
   getcolor self (Tuple cs) = (Inr i, self)"
  by (simp add: getcolor_def)

lemma map_of_snoc_fresh:
  "map_of xs k = None \<Longrightarrow> map_of (xs @ [(k, v)]) k = Some v"
  by (simp add: map_add_def)

lemma getcolor_fresh:
  assumes "\<not> rawmode_set self" and "map_of (colors self) cs = None"
    and "length (colors self) < 256" and "3 \<le> length cs"
    and "length (colors self) + 512 < length (items (palette self))"
    and "\<forall>c<3. 0 \<le> cs ! c \<and> cs ! c \<le> 255"
  shows "fst (getcolor self (Tuple cs)) = Inr (int (length (colors self)))
     \<and> items (palette (snd (getcolor self (Tuple cs)))) = (items (palette self))
          [length (colors self) := cs ! 0,
           length (colors self) + 256 := cs ! 1,
           length (colors self) + 512 := cs ! 2]
     \<and> colors (snd (getcolor self (Tuple cs)))
          = colors self @ [(cs, int (length (colors self)))]
     \<and> dirty (snd (getcolor self (Tuple cs))) = Some 1
     \<and> rawmode (snd (getcolor self (Tuple cs))) = rawmode self
     \<and> mode (snd (getcolor self (Tuple cs))) = mode self
     \<and> channels (snd (getcolor self (Tuple cs))) = channels self"
proof -
  from assms(4) obtain a b c rest where cs: "cs = a # b # c # rest"
    by (cases cs; cases "tl cs"; cases "tl (tl cs)") auto
  from assms(6) have "0 \<le> cs ! 0 \<and> cs ! 0 \<le> 255" "0 \<le> cs ! 1 \<and> cs ! 1 \<le> 255"
    "0 \<le> cs ! 2 \<and> cs ! 2 \<le> 255"
    by simp_all
  with cs have r: "0 \<le> a" "a \<le> 255" "0 \<le> b" "b \<le> 255" "0 \<le> c" "c \<le> 255"
    by simp_all
  show ?thesis
  proof (cases "palette self")
    case (Bytes xs)
    with assms(1-3,5) r show ?thesis
      unfolding cs by (simp add: getcolor_def thaw_def store_def Let_def)
  next
    case (ByteArray xs)
    with assms(1-3,5) r show ?thesis
      unfolding cs by (simp add: getcolor_def thaw_def store_def Let_def)
  next
    case (IntList xs)
    with assms(1-3,5) r show ?thesis
      unfolding cs by (simp add: getcolor_def thaw_def store_def Let_def)
  qed
qed


lemma getitem_update:
  "getitem (palette p') j =
     (if j < length (items (palette p')) then Some (items (palette p') ! j) else None)"
  by (simp add: getitem_def)

text \<open>
  Claim C3, amended. On a palette that is not raw, whose buffer has at least 768 entries,
  and with fewer than 256 colours allocated, \<^verbatim>\<open>getcolor\<close> of a tuple of at least three
  components in 0..255 that \<^verbatim>\<open>colors\<close> does not hold returns the number of colours
  allocated so far as the new index, writes the components 0, 1 and 2 of the tuple at the
  offsets \<open>c * 256 + index\<close>, changes no other position of the buffer (a fourth
  component is not written, whatever the number of channels), appends the tuple with its
  index to \<^verbatim>\<open>colors\<close>, and sets \<^verbatim>\<open>dirty\<close> to 1.
\<close>

theorem getcolor_allocates_rgb:
  assumes "\<not> rawmode_set self" and "map_of (colors self) cs = None"
    and "length (colors self) < 256" and "3 \<le> length cs"
    and "768 \<le> length (items (palette self))"
    and "\<forall>c<3. 0 \<le> cs ! c \<and> cs ! c \<le> 255"
  shows "fst (getcolor self (Tuple cs)) = Inr (int (length (colors self)))
     \<and> (\<forall>c<3. getitem (palette (snd (getcolor self (Tuple cs)))) (c * 256 + length (colors self))
           = Some (cs ! c))
     \<and> (\<forall>j. j \<noteq> length (colors self) \<and> j \<noteq> 256 + length (colors self)
             \<and> j \<noteq> 512 + length (colors self)
           \<longrightarrow> getitem (palette (snd (getcolor self (Tuple cs)))) j = getitem (palette self) j)
     \<and> colors (snd (getcolor self (Tuple cs)))
          = colors self @ [(cs, int (length (colors self)))]
     \<and> map_of (colors (snd (getcolor self (Tuple cs)))) cs = Some (int (length (colors self)))
     \<and> dirty (snd (getcolor self (Tuple cs))) = Some 1"
proof -
  let ?n = "length (colors self)"
  let ?p = "snd (getcolor self (Tuple cs))"
  from assms(3,5) have len: "?n + 512 < length (items (palette self))" by simp
  note f = getcolor_fresh [OF assms(1-4) len assms(6)]
  from f have its: "items (palette ?p)
      = (items (palette self))[?n := cs ! 0, 256 + ?n := cs ! 1, 512 + ?n := cs ! 2]"
    by (simp add: add.commute)
  have w: "getitem (palette ?p) (c * 256 + ?n) = Some (cs ! c)" if "c < 3" for c
  proof -
    from that have "c = 0 \<or> c = 1 \<or> c = 2" by auto
    moreover from len have "?n < length (items (palette self))"
      "256 + ?n < length (items (palette self))" "512 + ?n < length (items (palette self))"
      by simp_all
    ultimately show ?thesis by (auto simp add: getitem_def its)
  qed
  have u: "getitem (palette ?p) j = getitem (palette self) j"
    if "j \<noteq> ?n \<and> j \<noteq> 256 + ?n \<and> j \<noteq> 512 + ?n" for j
    using that by (simp add: getitem_def its)
  from f have "colors ?p = colors self @ [(cs, int ?n)]" by blast
  with map_of_snoc_fresh [OF assms(2), of "int ?n"]
  have m: "map_of (colors ?p) cs = Some (int ?n)" by simp
  from f w u m show ?thesis by simp
qed

lemma split_CMYK: "split_abbreviations ''CMYK'' = [''C'', ''M'', ''Y'', ''K'']"
  by (simp add: split_abbreviations_def before_semicolon_def islower_def
      islower_char_simps isupper_char_simps)

theorem getcolor_allocates_rgb_witness:
  "fst (getcolor \<lparr>mode = ''RGB'', channels = Labels [''R'', ''G'', ''B''], rawmode = None,
          palette = ramp 3, colors = [], dirty = None\<rparr> (Tuple [10, 20, 30])) = Inr 0
   \<and> getitem (palette (snd (getcolor \<lparr>mode = ''RGB'', channels = Labels [''R'', ''G'', ''B''],
          rawmode = None, palette = ramp 3, colors = [], dirty = None\<rparr> (Tuple [10, 20, 30]))))
        (2 * 256 + 0) = Some 30
   \<and> dirty (snd (getcolor \<lparr>mode = ''RGB'', channels = Labels [''R'', ''G'', ''B''],
          rawmode = None, palette = ramp 3, colors = [], dirty = None\<rparr> (Tuple [10, 20, 30])))
        = Some 1"
proof -
  let ?P = "\<lparr>mode = ''RGB'', channels = Labels [''R'', ''G'', ''B''], rawmode = None,
          palette = ramp 3, colors = [], dirty = None\<rparr>"
  have 1: "\<not> rawmode_set ?P" by (simp add: rawmode_set_def)
  have 2: "map_of (colors ?P) [10, 20, 30] = None" by simp
  have 3: "length (colors ?P) < 256" by simp
  have 4: "3 \<le> length [10, 20, 30 :: int]" by simp
  have 5: "768 \<le> length (items (palette ?P))" by (simp add: length_ramp)
  have 6: "\<forall>c<3. 0 \<le> [10, 20, 30 :: int] ! c \<and> [10, 20, 30 :: int] ! c \<le> 255"
  proof (intro allI impI)
    fix c :: nat assume "c < 3"
    then have "c = 0 \<or> c = 1 \<or> c = 2" by auto
    then show "0 \<le> [10, 20, 30 :: int] ! c \<and> [10, 20, 30 :: int] ! c \<le> 255" by auto
  qed
  note t = getcolor_allocates_rgb [OF 1 2 3 4 5 6]
  from t have a: "fst (getcolor ?P (Tuple [10, 20, 30])) = Inr 0" by simp
  from t have "\<forall>c<3. getitem (palette (snd (getcolor ?P (Tuple [10, 20, 30]))))
      (c * 256 + length (colors ?P)) = Some ([10, 20, 30] ! c)" by blast
  from this [rule_format, of 2]
  have b: "getitem (palette (snd (getcolor ?P (Tuple [10, 20, 30])))) (2 * 256 + 0) = Some 30"
    by simp
  from t have c: "dirty (snd (getcolor ?P (Tuple [10, 20, 30]))) = Some 1" by blast
  from a b c show ?thesis by simp
qed

text \<open>
  Claim C3 as stated fails on four channels: on the default CMYK palette,
  \<^verbatim>\<open>getcolor((1, 2, 3, 4))\<close> returns index 0 and leaves the entry at offset
  \<open>3 * 256 + 0\<close> at its old value 0; the fourth component 4 is not written.
\<close>

theorem getcolor_CMYK_counterexample:
  "ImagePalette_init ''CMYK'' None None 0
     = Inr \<lparr>mode = ''CMYK'', channels = Labels [''C'', ''M'', ''Y'', ''K''], rawmode = None,
            palette = ramp 4, colors = [], dirty = None\<rparr>
   \<and> fst (getcolor \<lparr>mode = ''CMYK'', channels = Labels [''C'', ''M'', ''Y'', ''K''],
            rawmode = None, palette = ramp 4, colors = [], dirty = None\<rparr> (Tuple [1, 2, 3, 4]))
       = Inr 0
   \<and> getitem (palette (snd (getcolor \<lparr>mode = ''CMYK'',
            channels = Labels [''C'', ''M'', ''Y'', ''K''], rawmode = None, palette = ramp 4,
            colors = [], dirty = None\<rparr> (Tuple [1, 2, 3, 4])))) (3 * 256 + 0)
       = Some 0"
proof -
  let ?P = "\<lparr>mode = ''CMYK'', channels = Labels [''C'', ''M'', ''Y'', ''K''], rawmode = None,
            palette = ramp 4, colors = [], dirty = None\<rparr>"
  have n4: "Suc (Suc (Suc (Suc 0))) = 4" by simp
  have i: "ImagePalette_init ''CMYK'' None None 0 = Inr ?P"
    by (simp add: init_absent channels_or_def split_CMYK n4)
  have 1: "\<not> rawmode_set ?P" by (simp add: rawmode_set_def)
  have 2: "map_of (colors ?P) [1, 2, 3, 4] = None" by simp
  have 3: "length (colors ?P) < 256" by simp
  have 4: "3 \<le> length [1, 2, 3, 4 :: int]" by simp
  have 5: "length (colors ?P) + 512 < length (items (palette ?P))" by (simp add: length_ramp)
  have 6: "\<forall>c<3. 0 \<le> [1, 2, 3, 4 :: int] ! c \<and> [1, 2, 3, 4 :: int] ! c \<le> 255"
  proof (intro allI impI)
    fix c :: nat assume "c < 3"
    then have "c = 0 \<or> c = 1 \<or> c = 2" by auto
    then show "0 \<le> [1, 2, 3, 4 :: int] ! c \<and> [1, 2, 3, 4 :: int] ! c \<le> 255" by auto
  qed
  note f = getcolor_fresh [OF 1 2 3 4 5 6]
  from f have a: "fst (getcolor ?P (Tuple [1, 2, 3, 4])) = Inr 0" by simp
  from f have its: "items (palette (snd (getcolor ?P (Tuple [1, 2, 3, 4]))))
      = (items (ramp 4))[0 := 1, 256 := 2, 512 := 3]" by simp
  have "items (ramp 4) ! (3 * 256 + 0) = int 0" by (rule nth_ramp) simp_all
  then have b: "getitem (palette (snd (getcolor ?P (Tuple [1, 2, 3, 4])))) (3 * 256 + 0) = Some 0"
    by (simp add: getitem_def its length_ramp)
  from i a b show ?thesis by simp
qed


lemma store_fields:
  "store s cs c pos = Inr s' \<Longrightarrow>
   colors s' = colors s \<and> rawmode s' = rawmode s \<and> dirty s' = dirty s
   \<and> mode s' = mode s \<and> channels s' = channels s"
  by (auto simp add: store_def split: if_splits sum.splits)

lemma thaw_fields:
  "colors (thaw s) = colors s" "rawmode (thaw s) = rawmode s" "dirty (thaw s) = dirty s"
  "mode (thaw s) = mode s" "channels (thaw s) = channels s"
  "items (palette (thaw s)) = items (palette s)"
  by (simp_all add: thaw_def split: buffer.splits)

lemma getcolor_rawmode: "rawmode (snd (getcolor p c)) = rawmode p"
  by (auto simp add: getcolor_def Let_def thaw_fields
      split: color.splits option.splits sum.splits dest!: store_fields)

lemma getcolor_colors:
  "colors (snd (getcolor p c)) = colors p
   \<or> (\<exists>cs. c = Tuple cs \<and> map_of (colors p) cs = None \<and> length (colors p) < 256
        \<and> colors (snd (getcolor p c)) = colors p @ [(cs, int (length (colors p)))])"
  by (auto simp add: getcolor_def Let_def thaw_fields
      split: color.splits option.splits sum.splits dest!: store_fields)

lemma getcolor_returned:
  assumes "getcolor self (Tuple cs) = (Inr i, p')"
  shows "map_of (colors p') cs = Some i \<and> \<not> rawmode_set p'"
proof -
  from assms have nr: "\<not> rawmode_set self"
    by (auto simp add: getcolor_def split: if_splits)
  from getcolor_rawmode [of self "Tuple cs"] assms have "rawmode p' = rawmode self" by simp
  with nr have nr': "\<not> rawmode_set p'" by (simp add: rawmode_set_def)
  show ?thesis
  proof (cases "map_of (colors self) cs")
    case (Some j)
    with nr assms show ?thesis using nr' by (auto simp add: getcolor_def)
  next
    case None
    with nr assms have "colors p' = colors self @ [(cs, i)]"
      by (auto simp add: getcolor_def Let_def thaw_fields
          split: if_splits sum.splits dest!: store_fields)
    with map_of_snoc_fresh [OF None, of i] nr' show ?thesis by simp
  qed
qed

text \<open>
  Claim C8. On a palette that is not raw, \<^verbatim>\<open>getcolor\<close> of a tuple that \<^verbatim>\<open>colors\<close>
  holds returns the index recorded for it and leaves the palette as it was: the buffer,
  \<^verbatim>\<open>colors\<close> and \<^verbatim>\<open>dirty\<close> are unchanged. Hence after a call that returned an index,
  a second call with the same tuple returns the same index and changes nothing.
\<close>

theorem getcolor_idempotent:
  assumes "\<not> rawmode_set self"
  shows "(map_of (colors self) cs = Some i \<longrightarrow> getcolor self (Tuple cs) = (Inr i, self))
     \<and> (getcolor self (Tuple cs) = (Inr j, p') \<longrightarrow> getcolor p' (Tuple cs) = (Inr j, p'))"
proof (intro conjI impI)
  assume "map_of (colors self) cs = Some i"
  with assms show "getcolor self (Tuple cs) = (Inr i, self)" by (rule getcolor_known)
next
  assume "getcolor self (Tuple cs) = (Inr j, p')"
  from getcolor_returned [OF this] show "getcolor p' (Tuple cs) = (Inr j, p')"
    by (simp add: getcolor_known)
qed

theorem getcolor_idempotent_witness:
  "getcolor \<lparr>mode = ''RGB'', channels = Labels [''R'', ''G'', ''B''], rawmode = None,
       palette = ramp 3, colors = [([10, 20, 30], 0)], dirty = Some 1\<rparr> (Tuple [10, 20, 30])
     = (Inr 0, \<lparr>mode = ''RGB'', channels = Labels [''R'', ''G'', ''B''], rawmode = None,
       palette = ramp 3, colors = [([10, 20, 30], 0)], dirty = Some 1\<rparr>)
   \<and> getcolor (snd (getcolor \<lparr>mode = ''RGB'', channels = Labels [''R'', ''G'', ''B''],
       rawmode = None, palette = ramp 3, colors = [], dirty = None\<rparr> (Tuple [10, 20, 30])))
       (Tuple [10, 20, 30])
     = (Inr 0, snd (getcolor \<lparr>mode = ''RGB'', channels = Labels [''R'', ''G'', ''B''],
       rawmode = None, palette = ramp 3, colors = [], dirty = None\<rparr> (Tuple [10, 20, 30])))"
proof -
  let ?Q = "\<lparr>mode = ''RGB'', channels = Labels [''R'', ''G'', ''B''], rawmode = None,
       palette = ramp 3, colors = [([10, 20, 30], 0)], dirty = Some 1\<rparr>"
  let ?P = "\<lparr>mode = ''RGB'', channels = Labels [''R'', ''G'', ''B''], rawmode = None,
       palette = ramp 3, colors = [], dirty = None\<rparr>"
  have q: "\<not> rawmode_set ?Q" by (simp add: rawmode_set_def)
  have "map_of (colors ?Q) [10, 20, 30] = Some 0" by simp
  with getcolor_idempotent [OF q, of "[10, 20, 30]" 0]
  have a: "getcolor ?Q (Tuple [10, 20, 30]) = (Inr 0, ?Q)" by blast
  have 1: "\<not> rawmode_set ?P" by (simp add: rawmode_set_def)
  have 2: "map_of (colors ?P) [10, 20, 30] = None" by simp
  have 3: "length (colors ?P) < 256" by simp
  have 4: "3 \<le> length [10, 20, 30 :: int]" by simp
  have 5: "length (colors ?P) + 512 < length (items (palette ?P))" by (simp add: length_ramp)
  have 6: "\<forall>c<3. 0 \<le> [10, 20, 30 :: int] ! c \<and> [10, 20, 30 :: int] ! c \<le> 255"
  proof (intro allI impI)
    fix c :: nat assume "c < 3"
    then have "c = 0 \<or> c = 1 \<or> c = 2" by auto
    then show "0 \<le> [10, 20, 30 :: int] ! c \<and> [10, 20, 30 :: int] ! c \<le> 255" by auto
  qed
  from getcolor_fresh [OF 1 2 3 4 5 6]
  have "fst (getcolor ?P (Tuple [10, 20, 30])) = Inr 0" by simp
  then have "getcolor ?P (Tuple [10, 20, 30]) = (Inr 0, snd (getcolor ?P (Tuple [10, 20, 30])))"
    by (metis prod.collapse)
  with getcolor_idempotent [OF 1, of "[10, 20, 30]" 0 0 "snd (getcolor ?P (Tuple [10, 20, 30]))"]
  have b: "getcolor (snd (getcolor ?P (Tuple [10, 20, 30]))) (Tuple [10, 20, 30])
      = (Inr 0, snd (getcolor ?P (Tuple [10, 20, 30])))" by blast
  from a b show ?thesis by simp
qed


section \<open>Tuples shorter than three components\<close>

lemma short_tuple_cases:
  "length (cs :: int list) < 3 \<Longrightarrow> cs = [] \<or> (\<exists>a. cs = [a]) \<or> (\<exists>a b. cs = [a, b])"
  by (cases cs; cases "tl cs"; cases "tl (tl cs)") auto

lemma getcolor_alloc_colors:
  assumes "\<not> rawmode_set self" and "map_of (colors self) cs = None"
    and "length (colors self) < 256"
  shows "colors (snd (getcolor self (Tuple cs)))
      = colors self @ [(cs, int (length (colors self)))]"
  using assms
  by (auto simp add: getcolor_def Let_def thaw_fields split: sum.splits dest!: store_fields)

lemma getcolor_alloc_unfold:
  assumes "\<not> rawmode_set self" and "map_of (colors self) cs = None"
    and "length (colors self) < 256"
  shows "getcolor self (Tuple cs) =
     (case store ((thaw self)\<lparr>colors := colors self @ [(cs, int (length (colors self)))]\<rparr>)
             cs 0 (length (colors self)) of
        Inl e \<Rightarrow>
          (Inl e, (thaw self)\<lparr>colors := colors self @ [(cs, int (length (colors self)))]\<rparr>)
      | Inr s2 \<Rightarrow>
          (case store s2 cs 1 (length (colors self) + 256) of
             Inl e \<Rightarrow> (Inl e, s2)
           | Inr s3 \<Rightarrow>
               (case store s3 cs 2 (length (colors self) + 512) of
                  Inl e \<Rightarrow> (Inl e, s3)
                | Inr s4 \<Rightarrow> (Inr (int (length (colors self))), s4\<lparr>dirty := Some 1\<rparr>))))"
  using assms by (simp add: getcolor_def Let_def thaw_fields cong: sum.case_cong)

lemma getcolor_raised_dirty:
  assumes "\<not> rawmode_set self" and "map_of (colors self) cs = None"
    and "length (colors self) < 256" and "fst (getcolor self (Tuple cs)) = Inl e"
  shows "dirty (snd (getcolor self (Tuple cs))) = dirty self"
proof -
  let ?n = "length (colors self)"
  let ?s1 = "(thaw self)\<lparr>colors := colors self @ [(cs, int ?n)]\<rparr>"
  note g = getcolor_alloc_unfold [OF assms(1-3)]
  show ?thesis
  proof (cases "store ?s1 cs 0 ?n")
    case (Inl e1)
    with g show ?thesis by (simp add: thaw_fields)
  next
    case A: (Inr s2)
    from store_fields [OF A] have d2: "dirty s2 = dirty self" by (simp add: thaw_fields)
    show ?thesis
    proof (cases "store s2 cs 1 (?n + 256)")
      case (Inl e2)
      with g A d2 show ?thesis by simp
    next
      case B: (Inr s3)
      from store_fields [OF B] d2 have d3: "dirty s3 = dirty self" by simp
      show ?thesis
      proof (cases "store s3 cs 2 (?n + 512)")
        case (Inl e3)
        with g A B d3 show ?thesis by simp
      next
        case (Inr s4)
        with g A B assms(4) show ?thesis by simp
      qed
    qed
  qed
qed

lemma store_short: "length cs \<le> c \<Longrightarrow> store s cs c pos = Inl (IndexError ''tuple index out of range'')"
  by (simp add: store_def)

lemma getcolor_short_raises:
  assumes "\<not> rawmode_set self" and "map_of (colors self) cs = None"
    and "length (colors self) < 256" and "length cs < 3"
  shows "\<exists>e. fst (getcolor self (Tuple cs)) = Inl e"
proof -
  from assms(4) have "\<And>s pos. store s cs 2 pos = Inl (IndexError ''tuple index out of range'')"
    by (simp add: store_short)
  then show ?thesis
    by (simp add: getcolor_alloc_unfold [OF assms(1-3)] split: sum.splits)
qed

lemma getcolor_short_recorded:
  assumes "\<not> rawmode_set self" and "length cs < 3" and "map_of (colors self) cs = None"
    and "length (colors self) < 256"
  shows "(\<exists>e. fst (getcolor self (Tuple cs)) = Inl e)
     \<and> colors (snd (getcolor self (Tuple cs))) = colors self @ [(cs, int (length (colors self)))]
     \<and> dirty (snd (getcolor self (Tuple cs))) = dirty self"
proof -
  from getcolor_short_raises [OF assms(1,3,4,2)]
  obtain e where e: "fst (getcolor self (Tuple cs)) = Inl e" by blast
  from e getcolor_raised_dirty [OF assms(1,3,4) e] getcolor_alloc_colors [OF assms(1,3,4)]
  show ?thesis by blast
qed

lemma getcolor_short_written:
  assumes "\<not> rawmode_set self" and "length cs < 3" and "map_of (colors self) cs = None"
    and "length (colors self) < 256"
    and "256 * length cs \<le> length (items (palette self))"
    and "list_all (\<lambda>v. 0 \<le> v \<and> v \<le> 255) cs"
  shows "fst (getcolor self (Tuple cs)) = Inl (IndexError ''tuple index out of range'')
     \<and> (\<forall>c<length cs. getitem (palette (snd (getcolor self (Tuple cs))))
            (c * 256 + length (colors self)) = Some (cs ! c))"
proof -
  from short_tuple_cases [OF assms(2)] show ?thesis
  proof (elim disjE exE)
    assume "cs = []"
    with assms(1,3,4) show ?thesis
      by (simp add: getcolor_def Let_def thaw_fields store_def)
  next
    fix a assume cs: "cs = [a]"
    show ?thesis
    proof (cases "palette self")
      case (Bytes xs)
      with assms(1,3-6) show ?thesis
        unfolding cs by (simp add: getcolor_def Let_def thaw_def store_def getitem_def)
    next
      case (ByteArray xs)
      with assms(1,3-6) show ?thesis
        unfolding cs by (simp add: getcolor_def Let_def thaw_def store_def getitem_def)
    next
      case (IntList xs)
      with assms(1,3-6) show ?thesis
        unfolding cs by (simp add: getcolor_def Let_def thaw_def store_def getitem_def)
    qed
  next
    fix a b assume cs: "cs = [a, b]"
    have two: "c = 0 \<or> c = 1" if "c < 2" for c :: nat using that by auto
    show ?thesis
    proof (cases "palette self")
      case (Bytes xs)
      with assms(1,3-6) show ?thesis
        unfolding cs
        by (auto simp add: getcolor_def Let_def thaw_def store_def getitem_def
            less_Suc_eq add.commute dest!: two)
    next
      case (ByteArray xs)
      with assms(1,3-6) show ?thesis
        unfolding cs
        by (auto simp add: getcolor_def Let_def thaw_def store_def getitem_def
            less_Suc_eq add.commute dest!: two)
    next
      case (IntList xs)
      with assms(1,3-6) show ?thesis
        unfolding cs
        by (auto simp add: getcolor_def Let_def thaw_def store_def getitem_def
            less_Suc_eq add.commute dest!: two)
    qed
  qed
qed

text \<open>
  Claim C9, amended. On a palette that is not raw, with fewer than 256 colours allocated,
  \<^verbatim>\<open>getcolor\<close> of a tuple of fewer than three components that \<^verbatim>\<open>colors\<close> does not hold
  raises, and it raises after \<^verbatim>\<open>self.colors[color] = index\<close>: the palette after the call
  holds the tuple with its index, \<^verbatim>\<open>dirty\<close> is as before, and a second call with the same
  tuple returns that index and changes nothing. When the buffer has 256 entries for each
  component of the tuple and the components are in 0..255, the exception is the
  \<^verbatim>\<open>IndexError\<close> of the read of the missing component, and every component of the tuple
  has been written at \<open>c * 256 + index\<close>.
\<close>

theorem getcolor_short_tuple_not_atomic:
  assumes "\<not> rawmode_set self" and "length cs < 3" and "map_of (colors self) cs = None"
    and "length (colors self) < 256"
  shows "(\<exists>e. fst (getcolor self (Tuple cs)) = Inl e)
     \<and> colors (snd (getcolor self (Tuple cs))) = colors self @ [(cs, int (length (colors self)))]
     \<and> map_of (colors (snd (getcolor self (Tuple cs)))) cs = Some (int (length (colors self)))
     \<and> dirty (snd (getcolor self (Tuple cs))) = dirty self
     \<and> getcolor (snd (getcolor self (Tuple cs))) (Tuple cs)
         = (Inr (int (length (colors self))), snd (getcolor self (Tuple cs)))
     \<and> (256 * length cs \<le> length (items (palette self))
          \<and> list_all (\<lambda>v. 0 \<le> v \<and> v \<le> 255) cs
        \<longrightarrow> fst (getcolor self (Tuple cs)) = Inl (IndexError ''tuple index out of range'')
            \<and> (\<forall>c<length cs. getitem (palette (snd (getcolor self (Tuple cs))))
                   (c * 256 + length (colors self)) = Some (cs ! c)))"
proof -
  let ?p = "snd (getcolor self (Tuple cs))"
  note r = getcolor_short_recorded [OF assms]
  from r have col: "colors ?p = colors self @ [(cs, int (length (colors self)))]" by blast
  with map_of_snoc_fresh [OF assms(3), of "int (length (colors self))"]
  have m: "map_of (colors ?p) cs = Some (int (length (colors self)))" by simp
  from getcolor_rawmode [of self "Tuple cs"] assms(1) have "\<not> rawmode_set ?p"
    by (simp add: rawmode_set_def)
  from getcolor_known [OF this m]
  have again: "getcolor ?p (Tuple cs) = (Inr (int (length (colors self))), ?p)" .
  from r m again getcolor_short_written [OF assms] show ?thesis by blast
qed

theorem getcolor_short_tuple_not_atomic_witness:
  "fst (getcolor \<lparr>mode = ''L'', channels = Labels [''L''], rawmode = None,
          palette = ramp 1, colors = [], dirty = None\<rparr> (Tuple [7]))
     = Inl (IndexError ''tuple index out of range'')
   \<and> colors (snd (getcolor \<lparr>mode = ''L'', channels = Labels [''L''], rawmode = None,
          palette = ramp 1, colors = [], dirty = None\<rparr> (Tuple [7]))) = [([7], 0)]
   \<and> getitem (palette (snd (getcolor \<lparr>mode = ''L'', channels = Labels [''L''], rawmode = None,
          palette = ramp 1, colors = [], dirty = None\<rparr> (Tuple [7])))) (0 * 256 + 0) = Some 7
   \<and> getcolor (snd (getcolor \<lparr>mode = ''L'', channels = Labels [''L''], rawmode = None,
          palette = ramp 1, colors = [], dirty = None\<rparr> (Tuple [7]))) (Tuple [7])
     = (Inr 0, snd (getcolor \<lparr>mode = ''L'', channels = Labels [''L''], rawmode = None,
          palette = ramp 1, colors = [], dirty = None\<rparr> (Tuple [7])))"
proof -
  let ?P = "\<lparr>mode = ''L'', channels = Labels [''L''], rawmode = None,
          palette = ramp 1, colors = [], dirty = None\<rparr>"
  have 1: "\<not> rawmode_set ?P" by (simp add: rawmode_set_def)
  have 2: "length [7 :: int] < 3" by simp
  have 3: "map_of (colors ?P) [7] = None" by simp
  have 4: "length (colors ?P) < 256" by simp
  have 5: "256 * length [7 :: int] \<le> length (items (palette ?P))
      \<and> list_all (\<lambda>v. 0 \<le> v \<and> v \<le> 255) [7 :: int]"
    by (simp add: length_ramp)
  note t = getcolor_short_tuple_not_atomic [OF 1 2 3 4]
  from t 5 have a: "fst (getcolor ?P (Tuple [7])) = Inl (IndexError ''tuple index out of range'')"
    by blast
  from t have b: "colors (snd (getcolor ?P (Tuple [7]))) = [([7], 0)]" by simp
  from t 5 have "\<forall>c<length [7 :: int]. getitem (palette (snd (getcolor ?P (Tuple [7]))))
      (c * 256 + length (colors ?P)) = Some ([7] ! c)" by blast
  from this [rule_format, of 0]
  have c: "getitem (palette (snd (getcolor ?P (Tuple [7])))) (0 * 256 + 0) = Some 7" by simp
  from t have d: "getcolor (snd (getcolor ?P (Tuple [7]))) (Tuple [7])
      = (Inr 0, snd (getcolor ?P (Tuple [7])))" by simp
  from a b c d show ?thesis by simp
qed


text \<open>The default palette of mode L: one channel, a buffer of 256 entries.\<close>

lemma split_L: "split_abbreviations ''L'' = [''L'']"
  by (simp add: split_abbreviations_def before_semicolon_def)

lemma init_L:
  "ImagePalette_init ''L'' None None 0 =
     Inr \<lparr>mode = ''L'', channels = Labels [''L''], rawmode = None, palette = ramp 1,
          colors = [], dirty = None\<rparr>"
  by (simp add: init_absent channels_or_def split_L)

text \<open>
  Claim C9 as stated fails where the buffer is too short for a component that was read:
  on the default palette of mode L (one channel, 256 entries), \<^verbatim>\<open>getcolor((7, 9))\<close>
  writes 7 at offset 0, reads the component 9, and the assignment at offset 256 raises
  the \<^verbatim>\<open>IndexError\<close> of the \<^verbatim>\<open>bytearray\<close>: the buffer after the call has no entry at
  \<open>1 * 256 + 0\<close>, so the component 9 was read and never written.
\<close>

theorem getcolor_L_two_components_counterexample:
  "ImagePalette_init ''L'' None None 0
     = Inr \<lparr>mode = ''L'', channels = Labels [''L''], rawmode = None, palette = ramp 1,
            colors = [], dirty = None\<rparr>
   \<and> fst (getcolor \<lparr>mode = ''L'', channels = Labels [''L''], rawmode = None,
         palette = ramp 1, colors = [], dirty = None\<rparr> (Tuple [7, 9]))
       = Inl (IndexError ''bytearray index out of range'')
   \<and> getitem (palette (snd (getcolor \<lparr>mode = ''L'', channels = Labels [''L''],
         rawmode = None, palette = ramp 1, colors = [], dirty = None\<rparr> (Tuple [7, 9]))))
         (0 * 256 + 0) = Some 7
   \<and> getitem (palette (snd (getcolor \<lparr>mode = ''L'', channels = Labels [''L''],
         rawmode = None, palette = ramp 1, colors = [], dirty = None\<rparr> (Tuple [7, 9]))))
         (1 * 256 + 0) = None"
proof -
  let ?P = "\<lparr>mode = ''L'', channels = Labels [''L''], rawmode = None, palette = ramp 1,
            colors = [], dirty = None\<rparr>"
  have 1: "\<not> rawmode_set ?P" by (simp add: rawmode_set_def)
  have 2: "map_of (colors ?P) [7, 9] = None" by simp
  have 3: "length (colors ?P) < 256" by simp
  have t: "thaw ?P = ?P" by (simp add: thaw_def ramp_def)
  obtain xs where r: "ramp 1 = ByteArray xs" by (simp add: ramp_def)
  then have i: "items (ramp 1) = xs" by simp
  from length_ramp [of 1] i have l: "length xs = 256" by simp
  have g: "getcolor ?P (Tuple [7, 9])
      = (Inl (IndexError ''bytearray index out of range''),
         \<lparr>mode = ''L'', channels = Labels [''L''], rawmode = None,
           palette = ByteArray (xs[0 := 7]), colors = [([7, 9], 0)],
           dirty = None\<rparr>)"
    by (subst getcolor_alloc_unfold [OF 1 2 3])
       (simp add: thaw_def store_def r l del: One_nat_def)
  from l have ne: "xs \<noteq> []" by auto
  from g l ne show ?thesis by (simp add: init_L getitem_def del: One_nat_def)
qed

section \<open>The cap of 256 colours\<close>

lemma init_colors: "ImagePalette_init m chs pal sz = Inr p \<Longrightarrow> colors p = []"
  by (auto simp add: ImagePalette_init_def Let_def split: if_splits)

lemma copy_colors: "copy p = Inr q \<Longrightarrow> colors q = colors p"
  by (auto simp add: copy_def init_RGB)

lemma reachable_colors:
  "reachable p \<Longrightarrow> length (colors p) \<le> 256 \<and> distinct (map fst (colors p))"
proof (induction rule: reachable.induct)
  case (constructed m chs pal sz p)
  then show ?case by (simp add: init_colors)
next
  case (raw_made rm data p)
  then show ?case by (auto simp add: raw_eq)
next
  case (copied p q)
  then show ?case by (simp add: copy_colors)
next
  case (getcolor_called p c)
  from getcolor_colors [of p c] show ?case
  proof (elim disjE exE conjE)
    assume "colors (snd (getcolor p c)) = colors p"
    with getcolor_called.IH show ?thesis by simp
  next
    fix cs
    assume fresh: "map_of (colors p) cs = None" and room: "length (colors p) < 256"
      and app: "colors (snd (getcolor p c)) = colors p @ [(cs, int (length (colors p)))]"
    from fresh have "cs \<notin> fst ` set (colors p)" by (simp add: map_of_eq_None_iff)
    with getcolor_called.IH room app show ?thesis by simp
  qed
qed

lemma getcolor_full:
  assumes "\<not> rawmode_set r" and "map_of (colors r) cs = None" and "256 \<le> length (colors r)"
  shows "getcolor r (Tuple cs) = (Inl PaletteFullError, thaw r)"
  using assms by (simp add: getcolor_def Let_def thaw_fields)

text \<open>
  Claim C4, amended. Whatever the calls that led to it, a palette holds at most 256 entries in
  \<^verbatim>\<open>colors\<close>, under distinct tuples. On a palette that is not raw: with 255 colours
  allocated and a buffer of at least 768 entries, \<^verbatim>\<open>getcolor\<close> of a new tuple of at
  least three components, the first three in 0..255, returns index 255 and \<^verbatim>\<open>colors\<close>
  then holds 256 entries; with 256 colours allocated, \<^verbatim>\<open>getcolor\<close> of a new tuple raises
  \<^verbatim>\<open>ValueError("cannot allocate more than 256 colors")\<close> and leaves \<^verbatim>\<open>colors\<close>, the
  contents of the buffer and \<^verbatim>\<open>dirty\<close> as they were.
\<close>

theorem colors_never_exceed_256:
  "(reachable p \<longrightarrow> length (colors p) \<le> 256 \<and> distinct (map fst (colors p)))
   \<and> (\<not> rawmode_set q \<and> length (colors q) = 255 \<and> map_of (colors q) cs = None
        \<and> 3 \<le> length cs \<and> (\<forall>c<3. 0 \<le> cs ! c \<and> cs ! c \<le> 255)
        \<and> 768 \<le> length (items (palette q))
      \<longrightarrow> fst (getcolor q (Tuple cs)) = Inr 255
          \<and> length (colors (snd (getcolor q (Tuple cs)))) = 256
          \<and> map_of (colors (snd (getcolor q (Tuple cs)))) cs = Some 255)
   \<and> (\<not> rawmode_set r \<and> 256 \<le> length (colors r) \<and> map_of (colors r) cs' = None
      \<longrightarrow> fst (getcolor r (Tuple cs')) = Inl PaletteFullError
          \<and> colors (snd (getcolor r (Tuple cs'))) = colors r
          \<and> items (palette (snd (getcolor r (Tuple cs')))) = items (palette r)
          \<and> dirty (snd (getcolor r (Tuple cs'))) = dirty r)"
proof -
  have A: "reachable p \<longrightarrow> length (colors p) \<le> 256 \<and> distinct (map fst (colors p))"
    by (simp add: reachable_colors)
  have B: "fst (getcolor q (Tuple cs)) = Inr 255
          \<and> length (colors (snd (getcolor q (Tuple cs)))) = 256
          \<and> map_of (colors (snd (getcolor q (Tuple cs)))) cs = Some 255"
    if h: "\<not> rawmode_set q \<and> length (colors q) = 255 \<and> map_of (colors q) cs = None
        \<and> 3 \<le> length cs \<and> (\<forall>c<3. 0 \<le> cs ! c \<and> cs ! c \<le> 255)
        \<and> 768 \<le> length (items (palette q))"
  proof -
    from h have 1: "\<not> rawmode_set q" and 2: "map_of (colors q) cs = None"
      and 3: "length (colors q) < 256" and 4: "3 \<le> length cs"
      and 5: "length (colors q) + 512 < length (items (palette q))"
      and 6: "\<forall>c<3. 0 \<le> cs ! c \<and> cs ! c \<le> 255"
      by simp_all
    note f = getcolor_fresh [OF 1 2 3 4 5 6]
    from h have n: "length (colors q) = 255" by blast
    from f have "colors (snd (getcolor q (Tuple cs))) = colors q @ [(cs, int (length (colors q)))]"
      by blast
    with map_of_snoc_fresh [OF 2, of "int (length (colors q))"] n
    have "map_of (colors (snd (getcolor q (Tuple cs)))) cs = Some 255" by simp
    with f n show ?thesis by simp
  qed
  have C: "fst (getcolor r (Tuple cs')) = Inl PaletteFullError
          \<and> colors (snd (getcolor r (Tuple cs'))) = colors r
          \<and> items (palette (snd (getcolor r (Tuple cs')))) = items (palette r)
          \<and> dirty (snd (getcolor r (Tuple cs'))) = dirty r"
    if h: "\<not> rawmode_set r \<and> 256 \<le> length (colors r) \<and> map_of (colors r) cs' = None"
  proof -
    from h have "getcolor r (Tuple cs') = (Inl PaletteFullError, thaw r)"
      by (simp add: getcolor_full)
    then show ?thesis by (simp add: thaw_fields)
  qed
  from A B C show ?thesis by blast
qed

theorem colors_never_exceed_256_witness:
  "length (colors \<lparr>mode = ''RGB'', channels = Labels [''R'', ''G'', ''B''], rawmode = None,
        palette = ramp 3, colors = [], dirty = None\<rparr>) \<le> 256
   \<and> fst (getcolor \<lparr>mode = ''RGB'', channels = Labels [''R'', ''G'', ''B''], rawmode = None,
        palette = ramp 3, colors = map (\<lambda>i. ([int i, 0, 0], int i)) [0..<255],
        dirty = Some 1\<rparr> (Tuple [255, 0, 0])) = Inr 255
   \<and> length (colors (snd (getcolor \<lparr>mode = ''RGB'', channels = Labels [''R'', ''G'', ''B''],
        rawmode = None, palette = ramp 3,
        colors = map (\<lambda>i. ([int i, 0, 0], int i)) [0..<255],
        dirty = Some 1\<rparr> (Tuple [255, 0, 0])))) = 256
   \<and> fst (getcolor \<lparr>mode = ''RGB'', channels = Labels [''R'', ''G'', ''B''], rawmode = None,
        palette = ramp 3, colors = map (\<lambda>i. ([int i, 0, 0], int i)) [0..<256],
        dirty = Some 1\<rparr> (Tuple [0, 0, 1])) = Inl PaletteFullError
   \<and> colors (snd (getcolor \<lparr>mode = ''RGB'', channels = Labels [''R'', ''G'', ''B''],
        rawmode = None, palette = ramp 3,
        colors = map (\<lambda>i. ([int i, 0, 0], int i)) [0..<256],
        dirty = Some 1\<rparr> (Tuple [0, 0, 1])))
      = map (\<lambda>i. ([int i, 0, 0], int i)) [0..<256]"
proof -
  let ?P = "\<lparr>mode = ''RGB'', channels = Labels [''R'', ''G'', ''B''], rawmode = None,
        palette = ramp 3, colors = [], dirty = None\<rparr>"
  let ?Q = "\<lparr>mode = ''RGB'', channels = Labels [''R'', ''G'', ''B''], rawmode = None,
        palette = ramp 3, colors = map (\<lambda>i. ([int i, 0, 0], int i)) [0..<255],
        dirty = Some 1\<rparr>"
  let ?R = "\<lparr>mode = ''RGB'', channels = Labels [''R'', ''G'', ''B''], rawmode = None,
        palette = ramp 3, colors = map (\<lambda>i. ([int i, 0, 0], int i)) [0..<256],
        dirty = Some 1\<rparr>"
  note t = colors_never_exceed_256 [of ?P ?Q "[255, 0, 0]" ?R "[0, 0, 1]"]
  have p: "reachable ?P" using init_RGB by (rule reachable.constructed)
  have q1: "\<not> rawmode_set ?Q" by (simp add: rawmode_set_def)
  have q2: "length (colors ?Q) = 255" by (simp del: upt_rec_numeral)
  have q3: "map_of (colors ?Q) [255, 0, 0] = None"
    by (auto simp add: map_of_eq_None_iff image_iff simp del: upt_rec_numeral)
  have q4: "3 \<le> length [255, 0, 0 :: int]" by simp
  have q5: "\<forall>c<3. 0 \<le> [255, 0, 0 :: int] ! c \<and> [255, 0, 0 :: int] ! c \<le> 255"
  proof (intro allI impI)
    fix c :: nat assume "c < 3"
    then have "c = 0 \<or> c = 1 \<or> c = 2" by auto
    then show "0 \<le> [255, 0, 0 :: int] ! c \<and> [255, 0, 0 :: int] ! c \<le> 255" by auto
  qed
  have q6: "768 \<le> length (items (palette ?Q))" by (simp add: length_ramp)
  have r1: "\<not> rawmode_set ?R" by (simp add: rawmode_set_def)
  have r2: "256 \<le> length (colors ?R)" by (simp del: upt_rec_numeral)
  have r3: "map_of (colors ?R) [0, 0, 1] = None"
    by (auto simp add: map_of_eq_None_iff image_iff simp del: upt_rec_numeral)
  from t p have a: "length (colors ?P) \<le> 256" by blast
  from t q1 q2 q3 q4 q5 q6
  have b: "fst (getcolor ?Q (Tuple [255, 0, 0])) = Inr 255
      \<and> length (colors (snd (getcolor ?Q (Tuple [255, 0, 0])))) = 256" by blast
  from t r1 r2 r3
  have c: "fst (getcolor ?R (Tuple [0, 0, 1])) = Inl PaletteFullError
      \<and> colors (snd (getcolor ?R (Tuple [0, 0, 1]))) = colors ?R" by blast
  from a b c show ?thesis by (simp del: upt_rec_numeral)
qed


text \<open>
  On the default palette of mode L, \<^verbatim>\<open>getcolor((k,))\<close> records the tuple under index
  \<open>k\<close>, writes \<open>k\<close> at offset \<open>k\<close> (where the ramp already holds \<open>k\<close>) and raises at
  the read of \<^verbatim>\<open>color[1]\<close>.
\<close>

lemma setitem_ramp_same:
  assumes "k < 256"
  shows "setitem (ramp 1) k (int k) = Inr (ramp 1)"
proof -
  obtain xs where r: "ramp 1 = ByteArray xs" by (simp add: ramp_def)
  then have i: "items (ramp 1) = xs" by simp
  from assms nth_ramp [of 0 1 k] i have n: "xs ! k = int k" by simp
  from length_ramp [of 1] i have l: "length xs = 256" by simp
  from n have u: "xs[k := int k] = xs" by (metis list_update_id)
  show ?thesis unfolding r using assms l u by simp
qed

lemma L_fresh: "map_of (map (\<lambda>i. ([int i], int i)) [0..<k]) [int k] = None"
  by (auto simp add: map_of_eq_None_iff image_iff)

lemma L_step:
  assumes "k < 256"
  shows "getcolor \<lparr>mode = ''L'', channels = Labels [''L''], rawmode = None, palette = ramp 1,
            colors = map (\<lambda>i. ([int i], int i)) [0..<k], dirty = None\<rparr> (Tuple [int k])
     = (Inl (IndexError ''tuple index out of range''),
        \<lparr>mode = ''L'', channels = Labels [''L''], rawmode = None, palette = ramp 1,
          colors = map (\<lambda>i. ([int i], int i)) [0..<Suc k], dirty = None\<rparr>)"
proof -
  let ?S = "\<lparr>mode = ''L'', channels = Labels [''L''], rawmode = None, palette = ramp 1,
            colors = map (\<lambda>i. ([int i], int i)) [0..<k], dirty = None\<rparr>"
  have 1: "\<not> rawmode_set ?S" by (simp add: rawmode_set_def)
  have 2: "map_of (colors ?S) [int k] = None" by (simp add: L_fresh)
  from assms have 3: "length (colors ?S) < 256" by simp
  have t: "thaw ?S = ?S" by (simp add: thaw_def ramp_def)
  show ?thesis
    by (simp add: getcolor_alloc_unfold [OF 1 2 3] t store_def setitem_ramp_same [OF assms]
          del: One_nat_def)
qed

lemma L_reachable:
  "k \<le> 256 \<Longrightarrow>
   reachable \<lparr>mode = ''L'', channels = Labels [''L''], rawmode = None, palette = ramp 1,
     colors = map (\<lambda>i. ([int i], int i)) [0..<k], dirty = None\<rparr>"
proof (induction k)
  case 0
  from init_L have "reachable \<lparr>mode = ''L'', channels = Labels [''L''], rawmode = None,
      palette = ramp 1, colors = [], dirty = None\<rparr>"
    by (rule reachable.constructed)
  then show ?case by simp
next
  case (Suc k)
  then have k: "k < 256" and r: "reachable \<lparr>mode = ''L'', channels = Labels [''L''],
      rawmode = None, palette = ramp 1,
      colors = map (\<lambda>i. ([int i], int i)) [0..<k], dirty = None\<rparr>"
    by simp_all
  from reachable.getcolor_called [OF r, of "Tuple [int k]"] L_step [OF k]
  show ?case by simp
qed

text \<open>
  Claim C4 as stated fails for the 256th colour of a palette of mode L. The palette
  built by \<^verbatim>\<open>ImagePalette("L")\<close> and 255 calls \<^verbatim>\<open>getcolor((k,))\<close>, \<open>k = 0, ..., 254\<close>
  (each raises after it has recorded its tuple) holds 255 entries in \<^verbatim>\<open>colors\<close>; the
  call \<^verbatim>\<open>getcolor((255,))\<close> with a tuple that \<^verbatim>\<open>colors\<close> does not hold raises
  \<^verbatim>\<open>IndexError\<close> and does not return an index, while \<^verbatim>\<open>colors\<close> grows to 256 entries.
\<close>

theorem getcolor_L_256th_counterexample:
  "reachable \<lparr>mode = ''L'', channels = Labels [''L''], rawmode = None, palette = ramp 1,
       colors = map (\<lambda>i. ([int i], int i)) [0..<255], dirty = None\<rparr>
   \<and> length (colors \<lparr>mode = ''L'', channels = Labels [''L''], rawmode = None,
       palette = ramp 1, colors = map (\<lambda>i. ([int i], int i)) [0..<255], dirty = None\<rparr>)
       = 255
   \<and> map_of (colors \<lparr>mode = ''L'', channels = Labels [''L''], rawmode = None,
       palette = ramp 1, colors = map (\<lambda>i. ([int i], int i)) [0..<255], dirty = None\<rparr>)
       [255] = None
   \<and> fst (getcolor \<lparr>mode = ''L'', channels = Labels [''L''], rawmode = None,
       palette = ramp 1, colors = map (\<lambda>i. ([int i], int i)) [0..<255], dirty = None\<rparr>
       (Tuple [255])) = Inl (IndexError ''tuple index out of range'')
   \<and> length (colors (snd (getcolor \<lparr>mode = ''L'', channels = Labels [''L''],
       rawmode = None, palette = ramp 1,
       colors = map (\<lambda>i. ([int i], int i)) [0..<255], dirty = None\<rparr> (Tuple [255]))))
       = 256"
proof -
  have a: "reachable \<lparr>mode = ''L'', channels = Labels [''L''], rawmode = None,
       palette = ramp 1, colors = map (\<lambda>i. ([int i], int i)) [0..<255], dirty = None\<rparr>"
    by (rule L_reachable) simp
  have b: "length (map (\<lambda>i. ([int i], int i)) [0..<255]) = 255"
    by (simp del: upt_rec_numeral)
  from L_fresh [of 255]
  have c: "map_of (map (\<lambda>i. ([int i], int i)) [0..<255]) [255] = None" by simp
  from L_step [of 255]
  have g: "getcolor \<lparr>mode = ''L'', channels = Labels [''L''], rawmode = None,
       palette = ramp 1, colors = map (\<lambda>i. ([int i], int i)) [0..<255], dirty = None\<rparr>
       (Tuple [255])
     = (Inl (IndexError ''tuple index out of range''),
        \<lparr>mode = ''L'', channels = Labels [''L''], rawmode = None, palette = ramp 1,
          colors = map (\<lambda>i. ([int i], int i)) [0..<Suc 255], dirty = None\<rparr>)"
    by simp
  have d: "length (map (\<lambda>i. ([int i], int i)) [0..<Suc 255]) = 256"
    by (simp del: upt_rec_numeral upt_Suc)
  from a b c d show ?thesis
    unfolding g by (simp del: upt_rec_numeral upt_Suc)
qed

section \<open>The text dump\<close>

lemma format_d_digit: "0 \<le> v \<Longrightarrow> v < 10 \<Longrightarrow> format_d v = [char_of (48 + nat v)]"
  by (simp add: format_d_def digits.simps)

lemma save_entry_ramp:
  "j < 256 \<Longrightarrow> j < 10 \<Longrightarrow>
   save_entry \<lparr>mode = m, channels = chs, rawmode = rm, palette = ramp 3, colors = cols,
     dirty = d\<rparr> j = CHR '' '' # [char_of (48 + j)]"
  using getitem_ramp [of 0 3 j] by (simp add: save_entry_def format_d_digit)

lemma digit_chars:
  "char_of (48 :: nat) = CHR ''0''" "char_of (49 :: nat) = CHR ''1''"
  "char_of (50 :: nat) = CHR ''2''" "char_of (51 :: nat) = CHR ''3''"
  "char_of (52 :: nat) = CHR ''4''" "char_of (53 :: nat) = CHR ''5''"
  by code_simp+

lemma first_rows: "[0..<256] = 0 # 1 # [2..<256]"
proof -
  have "[0..<256] = 0 # [Suc 0..<256]" by (rule upt_conv_Cons) simp
  moreover have "[Suc 0..<256] = Suc 0 # [Suc (Suc 0)..<256]" by (rule upt_conv_Cons) simp
  moreover have "Suc (Suc 0) = 2" by simp
  ultimately show ?thesis by simp
qed

text \<open>
  Claim C7 says that line \<open>i\<close> of the dump lists the entries at the offsets
  \<open>c * 256 + i\<close>, the layout of the constructor's docstring and of \<^verbatim>\<open>getcolor\<close>. The
  inner loop of \<^verbatim>\<open>save\<close> runs over \<^verbatim>\<open>range(i*C, (i+1)*C)\<close> instead: line \<open>i\<close> lists
  the \<open>C\<close> consecutive entries from offset \<open>i * C\<close>. On the default RGB palette, whose
  index 1 holds the value 1 in each of the three channels, the dump starts with the two
  header lines, then \<^verbatim>\<open>0 0 1 2\<close> and \<^verbatim>\<open>1 3 4 5\<close>, where the claim has \<^verbatim>\<open>0 0 0 0\<close>
  and \<^verbatim>\<open>1 1 1 1\<close>.
\<close>

theorem save_default_RGB_rows:
  "save \<lparr>mode = ''RGB'', channels = Labels [''R'', ''G'', ''B''], rawmode = None,
          palette = ramp 3, colors = [], dirty = None\<rparr> (Path ''palette.txt'')
     = Inr (''# Palette\<newline># Mode: RGB\<newline>0 0 1 2\<newline>1 3 4 5\<newline>''
            @ concat (map (save_row \<lparr>mode = ''RGB'', channels = Labels [''R'', ''G'', ''B''],
                rawmode = None, palette = ramp 3, colors = [], dirty = None\<rparr>) [2..<256]))
   \<and> getitem (ramp 3) (0 * 256 + 1) = Some 1
   \<and> getitem (ramp 3) (1 * 256 + 1) = Some 1
   \<and> getitem (ramp 3) (2 * 256 + 1) = Some 1"
proof -
  let ?P = "\<lparr>mode = ''RGB'', channels = Labels [''R'', ''G'', ''B''], rawmode = None,
          palette = ramp 3, colors = [], dirty = None\<rparr>"
  have r0: "save_row ?P 0 = ''0 0 1 2\<newline>''"
    by (simp add: save_row_def save_entry_ramp format_d_digit digit_chars)
  have r1: "save_row ?P 1 = ''1 3 4 5\<newline>''"
    by (simp add: save_row_def save_entry_ramp format_d_digit digit_chars)
  from r1 have r1': "save_row ?P (Suc 0) = ''1 3 4 5\<newline>''" by simp
  have s: "save ?P (Path ''palette.txt'')
     = Inr (''# Palette\<newline># Mode: RGB\<newline>0 0 1 2\<newline>1 3 4 5\<newline>''
            @ concat (map (save_row ?P) [2..<256]))"
    by (simp add: save_def rawmode_set_def first_rows r0 r1' del: upt_rec_numeral)
  have g0: "getitem (ramp 3) (0 * 256 + 1) = Some 1" using getitem_ramp [of 0 3 1] by simp
  have g1: "getitem (ramp 3) (1 * 256 + 1) = Some 1" using getitem_ramp [of 1 3 1] by simp
  have g2: "getitem (ramp 3) (2 * 256 + 1) = Some 1" using getitem_ramp [of 2 3 1] by simp
  from s g0 g1 g2 show ?thesis by blast
qed

end
